theory Spec2Isabelle
  imports Main
begin

section \<open>JavaScript values as the handlers see them\<close>

text \<open>
  The server of \<^verbatim>\<open>src/server.ts\<close> reads JSON request bodies and JSON answers of the two
  providers, and decides everything by JavaScript truthiness (\<^verbatim>\<open>!channel\<close>,
  \<^verbatim>\<open>data.error || 'Slack API error'\<close>, \<^verbatim>\<open>if (sha)\<close>). Values are therefore modelled with
  their JavaScript type. \<open>JUndefined\<close> is the value of an absent property; it never occurs
  inside a parsed JSON text. Numbers are the integers (the only numeric literal of the source is
  the default limit \<open>100\<close>); a number is falsy exactly when it is zero. A string is the list
  of its bytes in UTF-8, so the length of a string is its JavaScript length for ASCII text.
\<close>

datatype jsval =
    JUndefined
  | JNull
  | JBool bool
  | JNum int
  | JStr string
  | JArr "jsval list"
  | JObj "(string \<times> jsval) list"

datatype js_error =
    TypeError string
  | SyntaxError string
  | NetworkError string

fun message_of :: "js_error \<Rightarrow> string" where
  "message_of (TypeError m) = m"
| "message_of (SyntaxError m) = m"
| "message_of (NetworkError m) = m"

fun truthy :: "jsval \<Rightarrow> bool" where
  "truthy JUndefined = False"
| "truthy JNull = False"
| "truthy (JBool b) = b"
| "truthy (JNum n) = (n \<noteq> 0)"
| "truthy (JStr s) = (s \<noteq> [])"
| "truthy (JArr xs) = True"
| "truthy (JObj kvs) = True"

text \<open>\<^verbatim>\<open>a || b\<close>\<close>

definition js_or :: "jsval \<Rightarrow> jsval \<Rightarrow> jsval" where
  "js_or a b = (if truthy a then a else b)"

text \<open>A destructuring default, \<^verbatim>\<open>{ limit = 100 }\<close>: it applies to \<^verbatim>\<open>undefined\<close> only.\<close>

definition with_default :: "jsval \<Rightarrow> jsval \<Rightarrow> jsval" where
  "with_default v d = (if v = JUndefined then d else v)"

text \<open>
  Reading a property of a value that is neither \<^verbatim>\<open>undefined\<close> nor \<^verbatim>\<open>null\<close>, for the property
  names this program reads (none of them is an array index or a prototype method).
\<close>

fun field :: "jsval \<Rightarrow> string \<Rightarrow> jsval" where
  "field (JObj kvs) k = (case map_of kvs k of Some v \<Rightarrow> v | None \<Rightarrow> JUndefined)"
| "field (JArr xs) k = (if k = ''length'' then JNum (int (length xs)) else JUndefined)"
| "field (JStr s) k = (if k = ''length'' then JNum (int (length s)) else JUndefined)"
| "field v k = JUndefined"

definition nullish :: "jsval \<Rightarrow> bool" where
  "nullish v = (v = JUndefined \<or> v = JNull)"

text \<open>
  \<^verbatim>\<open>v.k\<close>: a TypeError on \<^verbatim>\<open>undefined\<close> and \<^verbatim>\<open>null\<close> (the message is the engine's wording).
\<close>

definition get_prop :: "jsval \<Rightarrow> string \<Rightarrow> js_error + jsval" where
  "get_prop v k =
     (if nullish v
      then Inl (TypeError (''Cannot read properties of '' @
                 (if v = JNull then ''null'' else ''undefined'') @
                 '' (reading '' @ [CHR 0x27] @ k @ [CHR 0x27] @ '')''))
      else Inr (field v k))"

text \<open>\<^verbatim>\<open>v?.k\<close>\<close>

definition opt_prop :: "jsval \<Rightarrow> string \<Rightarrow> jsval" where
  "opt_prop v k = (if nullish v then JUndefined else field v k)"

text \<open>
  \<^verbatim>\<open>const { k, ... } = req.body\<close> throws on a body that is \<^verbatim>\<open>undefined\<close> or \<^verbatim>\<open>null\<close>, and
  otherwise binds each name to the property or \<^verbatim>\<open>undefined\<close>.
\<close>

definition destructure :: "jsval \<Rightarrow> string \<Rightarrow> js_error + unit" where
  "destructure v k =
     (if nullish v
      then Inl (TypeError (''Cannot destructure property '' @ [CHR 0x27] @ k @ [CHR 0x27] @
                 '' of '' @ [CHR 0x27] @ ''req.body'' @ [CHR 0x27] @ '' as it is '' @
                 (if v = JNull then ''null'' else ''undefined'') @ ''.''))
      else Inr ())"

subsection \<open>Conversion to string\<close>

definition digit_char :: "nat \<Rightarrow> char" where
  "digit_char d = ''0123456789'' ! d"

fun digits :: "nat \<Rightarrow> string" where
  "digits n = (if n < 10 then [digit_char n] else digits (n div 10) @ [digit_char (n mod 10)])"

declare digits.simps [simp del]

definition int_str :: "int \<Rightarrow> string" where
  "int_str i = (if i < 0 then ''-'' @ digits (nat (- i)) else digits (nat i))"

text \<open>\<^verbatim>\<open>xs.join(sep)\<close> on strings.\<close>

fun join :: "string \<Rightarrow> string list \<Rightarrow> string" where
  "join sep [] = []"
| "join sep [x] = x"
| "join sep (x # y # ys) = x @ sep @ join sep (y # ys)"

text \<open>
  \<^verbatim>\<open>String(v)\<close> and \<^verbatim>\<open>`${v}`\<close>. An array joins its elements with a comma, \<^verbatim>\<open>null\<close> and
  \<^verbatim>\<open>undefined\<close> elements giving the empty string.
\<close>

fun to_str :: "jsval \<Rightarrow> string" where
  "to_str JUndefined = ''undefined''"
| "to_str JNull = ''null''"
| "to_str (JBool b) = (if b then ''true'' else ''false'')"
| "to_str (JNum n) = int_str n"
| "to_str (JStr s) = s"
| "to_str (JArr xs) =
     join '','' (map (\<lambda>x. if x = JUndefined \<or> x = JNull then [] else to_str x) xs)"
| "to_str (JObj kvs) = ''[object Object]''"

definition nl :: string where
  "nl = [CHR 0x0A]"

subsection \<open>Base64\<close>

text \<open>
  \<^verbatim>\<open>Buffer.from(s).toString('base64')\<close> for a string \<open>s\<close>. A string of the model is the
  list of its UTF-8 bytes; three bytes give four characters of the alphabet, and a last
  group of one or two bytes is padded with \<^verbatim>\<open>=\<close>.
\<close>

definition base64_char :: "nat \<Rightarrow> char" where
  "base64_char n = ''ABCDEFGHIJKLMNOPQRSTUVWXYZabcdefghijklmnopqrstuvwxyz0123456789+/'' ! n"

fun base64_bytes :: "nat list \<Rightarrow> string" where
  "base64_bytes [] = []"
| "base64_bytes [a] =
     [base64_char (a div 4), base64_char ((a mod 4) * 16), CHR ''='', CHR ''='']"
| "base64_bytes [a, b] =
     [base64_char (a div 4), base64_char ((a mod 4) * 16 + b div 16),
      base64_char ((b mod 16) * 4), CHR ''='']"
| "base64_bytes (a # b # c # bs) =
     [base64_char (a div 4), base64_char ((a mod 4) * 16 + b div 16),
      base64_char ((b mod 16) * 4 + c div 64), base64_char (c mod 64)] @ base64_bytes bs"

definition base64 :: "string \<Rightarrow> string" where
  "base64 s = base64_bytes (map of_char s)"

section \<open>Configuration, runtime and the outside world\<close>

text \<open>\<^verbatim>\<open>process.env\<close>: each variable is a string or unset.\<close>

record env =
  MCP_API_KEY :: "string option"
  SLACK_BOT_TOKEN :: "string option"
  GITHUB_TOKEN :: "string option"
  GITHUB_OWNER :: "string option"
  GITHUB_REPO :: "string option"

text \<open>
  \<^verbatim>\<open>!slackToken\<close> holds for an unset variable and for the empty string; \<open>configured\<close> gives the
  value exactly when that test lets the handler go on.
\<close>

definition configured :: "string option \<Rightarrow> string option" where
  "configured v = (case v of None \<Rightarrow> None | Some s \<Rightarrow> if s = [] then None else Some s)"

record out_request =
  out_method :: string
  out_url :: string
  out_params :: "(string \<times> string) list"
  out_headers :: "(string \<times> string) list"
  out_body :: "jsval option"

text \<open>
  The outcome of \<^verbatim>\<open>await fetch(...)\<close> followed by \<^verbatim>\<open>await response.json()\<close>: the call
  rejects, or it resolves to a response with a status and a body that parses as JSON
  (\<open>Inr\<close>) or does not (\<open>Inl\<close>, the message of the SyntaxError that \<^verbatim>\<open>json()\<close> throws).
\<close>

datatype fetch_result =
    Rejects string
  | Responds nat "string + jsval"

text \<open>\<^verbatim>\<open>response.ok\<close>\<close>

definition ok_status :: "nat \<Rightarrow> bool" where
  "ok_status st = (200 \<le> st \<and> st \<le> 299)"

text \<open>
  What the handlers take from the platform: the network (\<open>fetch rt i r\<close> is the outcome of
  the \<open>i\<close>-th outbound call of a handler run, made with request \<open>r\<close>), the clock
  (\<open>iso_now rt i\<close> is the \<open>i\<close>-th \<^verbatim>\<open>new Date().toISOString()\<close> of the run),
  \<^verbatim>\<open>new Date(parseFloat(ts) * 1000).toLocaleString()\<close> as a function of \<^verbatim>\<open>ts\<close>, and
  \<^verbatim>\<open>Buffer.from(v).toString('base64')\<close> for an array or an object \<open>v\<close>.
\<close>

record runtime =
  fetch :: "nat \<Rightarrow> out_request \<Rightarrow> fetch_result"
  iso_now :: "nat \<Rightarrow> string"
  locale_string :: "jsval \<Rightarrow> string"
  buffer_base64 :: "jsval \<Rightarrow> js_error + string"

record request =
  req_method :: string
  req_path :: string
  req_api_key :: "string option"
  req_body :: jsval

record http_response =
  res_status :: nat
  res_body :: jsval

text \<open>
  \<^verbatim>\<open>res.status(st).json({...})\<close>: serialising drops the properties whose value is
  \<^verbatim>\<open>undefined\<close>.
\<close>

definition res_json :: "nat \<Rightarrow> (string \<times> jsval) list \<Rightarrow> http_response" where
  "res_json st kvs =
     \<lparr>res_status = st, res_body = JObj (filter (\<lambda>kv. snd kv \<noteq> JUndefined) kvs)\<rparr>"

text \<open>The \<^verbatim>\<open>catch (error: any)\<close> block that closes each handler.\<close>

definition caught :: "js_error \<Rightarrow> http_response" where
  "caught err = res_json 500 [(''error'', JStr (message_of err))]"

text \<open>\<^verbatim>\<open>await fetch(...)\<close> then \<^verbatim>\<open>await response.json()\<close>, with what either may throw.\<close>

definition response_json :: "fetch_result \<Rightarrow> js_error + (nat \<times> jsval)" where
  "response_json r =
     (case r of
        Rejects m \<Rightarrow> Inl (NetworkError m)
      | Responds st b \<Rightarrow> (case b of Inl m \<Rightarrow> Inl (SyntaxError m) | Inr v \<Rightarrow> Inr (st, v)))"

section \<open>The Slack history handler\<close>

text \<open>
  The request object built with \<^verbatim>\<open>new URL\<close> and \<^verbatim>\<open>url.searchParams.append\<close>. The search
  parameters are kept as the list of appended pairs.
\<close>

definition slack_call :: "string \<Rightarrow> (string \<times> string) list \<Rightarrow> out_request" where
  "slack_call slackToken params =
     \<lparr>out_method = ''GET'',
      out_url = ''https://slack.com/api/conversations.history'',
      out_params = params,
      out_headers = [(''Authorization'', ''Bearer '' @ slackToken),
                     (''Content-Type'', ''application/json'')],
      out_body = None\<rparr>"

text \<open>Lines 89 to 100: what is answered once the history call has returned.\<close>

definition messages_reply :: "js_error + nat \<times> jsval \<Rightarrow> http_response" where
  "messages_reply r =
     (case r of
        Inl err \<Rightarrow> caught err
      | Inr (st, data) \<Rightarrow>
          (case get_prop data ''ok'' of
             Inl err \<Rightarrow> caught err
           | Inr ok \<Rightarrow>
               if \<not> truthy ok
               then res_json 400 [(''error'', js_or (field data ''error'') (JStr ''Slack API error''))]
               else res_json 200
                      [(''success'', JBool True),
                       (''messages'', js_or (field data ''messages'') (JArr [])),
                       (''count'', js_or (opt_prop (field data ''messages'') ''length'') (JNum 0)),
                       (''has_more'', js_or (field data ''has_more'') (JBool False))]))"

text \<open>
  \<^verbatim>\<open>POST /functions/get_slack_messages\<close>. A handler returns its response and the outbound
  calls it made, in order.
\<close>

definition get_slack_messages :: "env \<Rightarrow> runtime \<Rightarrow> jsval \<Rightarrow> http_response \<times> out_request list" where
  "get_slack_messages e rt b =
     (case destructure b ''channel'' of
        Inl err \<Rightarrow> (caught err, [])
      | Inr u \<Rightarrow>
          let channel = field b ''channel'';
              limit = with_default (field b ''limit'') (JNum 100);
              older_than = field b ''older_than''
          in if \<not> truthy channel
             then (res_json 400 [(''error'', JStr ''channel parameter is required'')], [])
             else (case configured (SLACK_BOT_TOKEN e) of
                     None \<Rightarrow> (res_json 500 [(''error'', JStr ''SLACK_BOT_TOKEN not configured'')], [])
                   | Some slackToken \<Rightarrow>
                       let call = slack_call slackToken
                                    ([(''channel'', to_str channel), (''limit'', to_str limit)] @
                                     (if truthy older_than then [(''oldest'', to_str older_than)] else []))
                       in (messages_reply (response_json (fetch rt 0 call)), [call])))"

section \<open>The repository write handler\<close>

definition github_config :: "env \<Rightarrow> (string \<times> string \<times> string) option" where
  "github_config e =
     (case configured (GITHUB_TOKEN e) of
        None \<Rightarrow> None
      | Some githubToken \<Rightarrow>
          (case configured (GITHUB_OWNER e) of
             None \<Rightarrow> None
           | Some githubOwner \<Rightarrow>
               (case configured (GITHUB_REPO e) of
                  None \<Rightarrow> None
                | Some githubRepo \<Rightarrow> Some (githubToken, githubOwner, githubRepo))))"

definition contents_url :: "string \<Rightarrow> string \<Rightarrow> string \<Rightarrow> string" where
  "contents_url githubOwner githubRepo path =
     ''https://api.github.com/repos/'' @ githubOwner @ ''/'' @ githubRepo @ ''/contents/'' @ path"

definition lookup_call :: "string \<Rightarrow> string \<Rightarrow> out_request" where
  "lookup_call url githubToken =
     \<lparr>out_method = ''GET'',
      out_url = url,
      out_params = [],
      out_headers = [(''Authorization'', ''token '' @ githubToken),
                     (''Accept'', ''application/vnd.github.v3+json'')],
      out_body = None\<rparr>"

text \<open>
  The inner \<^verbatim>\<open>try { ... } catch (e) { }\<close>: \<^verbatim>\<open>sha\<close> stays \<^verbatim>\<open>undefined\<close> unless the call
  resolves, the response is ok, its body parses and reading \<^verbatim>\<open>existing.sha\<close> does not throw.
\<close>

definition existing_sha :: "fetch_result \<Rightarrow> jsval" where
  "existing_sha r =
     (case r of
        Rejects m \<Rightarrow> JUndefined
      | Responds st b \<Rightarrow>
          if ok_status st
          then (case b of
                  Inl m \<Rightarrow> JUndefined
                | Inr existing \<Rightarrow>
                    (case get_prop existing ''sha'' of Inl err \<Rightarrow> JUndefined | Inr s \<Rightarrow> s))
          else JUndefined)"

text \<open>
  The object \<^verbatim>\<open>body\<close> of the write, with \<^verbatim>\<open>if (sha) { body.sha = sha; }\<close>. The request
  carries it through \<^verbatim>\<open>JSON.stringify\<close>; the model keeps the object.
\<close>

definition put_body :: "jsval \<Rightarrow> string \<Rightarrow> jsval \<Rightarrow> jsval \<Rightarrow> (string \<times> jsval) list" where
  "put_body message content branch sha =
     [(''message'', message), (''content'', JStr content), (''branch'', branch)] @
     (if truthy sha then [(''sha'', sha)] else [])"

definition put_call :: "string \<Rightarrow> string \<Rightarrow> (string \<times> jsval) list \<Rightarrow> out_request" where
  "put_call url githubToken body =
     \<lparr>out_method = ''PUT'',
      out_url = url,
      out_params = [],
      out_headers = [(''Authorization'', ''token '' @ githubToken),
                     (''Content-Type'', ''application/json''),
                     (''Accept'', ''application/vnd.github.v3+json'')],
      out_body = Some (JObj body)\<rparr>"

text \<open>
  \<^verbatim>\<open>Buffer.from(content).toString('base64')\<close> on the truthy \<^verbatim>\<open>content\<close> of a request:
  a number or a boolean is refused with a TypeError.
\<close>

definition content_base64 :: "runtime \<Rightarrow> jsval \<Rightarrow> js_error + string" where
  "content_base64 rt content =
     (case content of
        JStr s \<Rightarrow> Inr (base64 s)
      | JArr xs \<Rightarrow> buffer_base64 rt content
      | JObj kvs \<Rightarrow> buffer_base64 rt content
      | _ \<Rightarrow> Inl (TypeError ''The first argument must be of type string or an instance of Buffer, ArrayBuffer, or Array or an Array-like Object.''))"

text \<open>Lines 168 to 178.\<close>

definition save_reply :: "js_error + nat \<times> jsval \<Rightarrow> http_response" where
  "save_reply r =
     (case r of
        Inl err \<Rightarrow> caught err
      | Inr (st, data) \<Rightarrow>
          if \<not> ok_status st
          then (case get_prop data ''message'' of
                  Inl err \<Rightarrow> caught err
                | Inr m \<Rightarrow> res_json st [(''error'', js_or m (JStr ''GitHub API error''))])
          else (case get_prop data ''commit'' of
                  Inl err \<Rightarrow> caught err
                | Inr commit \<Rightarrow>
                    res_json 200
                      [(''success'', JBool True),
                       (''commit_sha'', opt_prop commit ''sha''),
                       (''file_url'', opt_prop (field data ''content'') ''html_url'')]))"

text \<open>\<^verbatim>\<open>POST /functions/save_to_github\<close>\<close>

definition save_to_github :: "env \<Rightarrow> runtime \<Rightarrow> jsval \<Rightarrow> http_response \<times> out_request list" where
  "save_to_github e rt b =
     (case destructure b ''path'' of
        Inl err \<Rightarrow> (caught err, [])
      | Inr u \<Rightarrow>
          let path = field b ''path'';
              content = field b ''content'';
              message = field b ''message'';
              branch = with_default (field b ''branch'') (JStr ''main'')
          in if \<not> truthy path \<or> \<not> truthy content
             then (res_json 400 [(''error'', JStr ''path and content parameters are required'')], [])
             else (case github_config e of
                     None \<Rightarrow> (res_json 500 [(''error'', JStr ''GitHub credentials not configured'')], [])
                   | Some (githubToken, githubOwner, githubRepo) \<Rightarrow>
                       let url = contents_url githubOwner githubRepo (to_str path);
                           check = lookup_call (url @ ''?ref='' @ to_str branch) githubToken;
                           sha = existing_sha (fetch rt 0 check)
                       in (case content_base64 rt content of
                             Inl err \<Rightarrow> (caught err, [check])
                           | Inr encoded \<Rightarrow>
                               let put = put_call url githubToken
                                           (put_body (js_or message (JStr ''Update from Slack context''))
                                              encoded branch sha)
                               in (save_reply (response_json (fetch rt 1 put)), [check, put]))))"

section \<open>The composite handler\<close>

text \<open>
  The arrow function passed to \<^verbatim>\<open>map\<close> (lines 232 to 238). Reading \<^verbatim>\<open>msg.ts\<close> throws
  on a \<^verbatim>\<open>null\<close> element.
\<close>

definition render_message :: "runtime \<Rightarrow> jsval \<Rightarrow> js_error + string" where
  "render_message rt msg =
     (case get_prop msg ''ts'' of
        Inl err \<Rightarrow> Inl err
      | Inr ts \<Rightarrow>
          let timestamp = locale_string rt ts;
              user = js_or (js_or (field msg ''user'') (field msg ''username'')) (JStr ''Unknown'');
              text = js_or (field msg ''text'') (JStr [])
          in Inr (''### '' @ to_str user @ '' - '' @ timestamp @ nl @ nl @ to_str text @ nl @ nl @ ''---''))"

text \<open>\<^verbatim>\<open>xs.map(f)\<close> for an \<^verbatim>\<open>f\<close> that may throw: the first exception ends the loop.\<close>

fun map_err :: "('a \<Rightarrow> 'e + 'b) \<Rightarrow> 'a list \<Rightarrow> 'e + 'b list" where
  "map_err f [] = Inr []"
| "map_err f (x # xs) =
     (case f x of
        Inl err \<Rightarrow> Inl err
      | Inr y \<Rightarrow> (case map_err f xs of Inl err \<Rightarrow> Inl err | Inr ys \<Rightarrow> Inr (y # ys)))"

text \<open>
  The template literal \<^verbatim>\<open>markdownContent\<close> (lines 226 to 239). \<^verbatim>\<open>messages\<close> is truthy or
  \<^verbatim>\<open>[]\<close>; when it is not an array, \<^verbatim>\<open>messages.reverse()\<close> throws.
\<close>

definition markdown_content :: "runtime \<Rightarrow> jsval \<Rightarrow> js_error + string" where
  "markdown_content rt messages =
     (case messages of
        JArr msgs \<Rightarrow>
          (case map_err (render_message rt) (rev msgs) of
             Inl err \<Rightarrow> Inl err
           | Inr blocks \<Rightarrow>
               Inr (''# Slack Context from Channel'' @ nl @
                    ''Generated: '' @ iso_now rt 0 @ nl @
                    ''Total messages: '' @ to_str (field messages ''length'') @ nl @
                    nl @
                    ''---'' @ nl @
                    nl @
                    join (nl @ nl) blocks @ nl))
      | _ \<Rightarrow> Inl (TypeError ''messages.reverse is not a function''))"

text \<open>Lines 294 to 308.\<close>

definition context_reply :: "jsval \<Rightarrow> js_error + nat \<times> jsval \<Rightarrow> http_response" where
  "context_reply messages r =
     (case r of
        Inl err \<Rightarrow> caught err
      | Inr (st, githubData) \<Rightarrow>
          if \<not> ok_status st
          then (case get_prop githubData ''message'' of
                  Inl err \<Rightarrow> caught err
                | Inr m \<Rightarrow>
                    res_json st
                      [(''error'', js_or m (JStr ''GitHub API error'')),
                       (''slack_messages_retrieved'', field messages ''length'')])
          else (case get_prop githubData ''content'' of
                  Inl err \<Rightarrow> caught err
                | Inr content \<Rightarrow>
                    res_json 200
                      [(''success'', JBool True),
                       (''messages_saved'', field messages ''length''),
                       (''github_url'', opt_prop content ''html_url''),
                       (''commit_sha'', opt_prop (field githubData ''commit'') ''sha'')]))"

text \<open>
  Step 3 of the handler (lines 241 to 308), entered with the history call already made.
\<close>

definition context_write ::
  "env \<Rightarrow> runtime \<Rightarrow> jsval \<Rightarrow> jsval \<Rightarrow> jsval \<Rightarrow> string \<Rightarrow> http_response \<times> out_request list" where
  "context_write e rt github_path commit_message messages markdownContent =
     (case github_config e of
        None \<Rightarrow> (res_json 500 [(''error'', JStr ''GitHub credentials not configured'')], [])
      | Some (githubToken, githubOwner, githubRepo) \<Rightarrow>
          let url = contents_url githubOwner githubRepo (to_str github_path);
              check = lookup_call url githubToken;
              sha = existing_sha (fetch rt 1 check);
              put = put_call url githubToken
                      (put_body
                         (js_or commit_message (JStr (''Update Slack context - '' @ iso_now rt 1)))
                         (base64 markdownContent) (JStr ''main'') sha)
          in (context_reply messages (response_json (fetch rt 2 put)), [check, put]))"

text \<open>\<^verbatim>\<open>POST /functions/slack_to_github_context\<close>\<close>

definition slack_to_github_context ::
  "env \<Rightarrow> runtime \<Rightarrow> jsval \<Rightarrow> http_response \<times> out_request list" where
  "slack_to_github_context e rt b =
     (case destructure b ''slack_channel'' of
        Inl err \<Rightarrow> (caught err, [])
      | Inr u \<Rightarrow>
          let slack_channel = field b ''slack_channel'';
              github_path = field b ''github_path'';
              message_limit = with_default (field b ''message_limit'') (JNum 100);
              commit_message = field b ''commit_message''
          in if \<not> truthy slack_channel \<or> \<not> truthy github_path
             then (res_json 400
                     [(''error'', JStr ''slack_channel and github_path parameters are required'')], [])
             else (case configured (SLACK_BOT_TOKEN e) of
                     None \<Rightarrow> (res_json 500 [(''error'', JStr ''SLACK_BOT_TOKEN not configured'')], [])
                   | Some slackToken \<Rightarrow>
                       let slackCall = slack_call slackToken
                                         [(''channel'', to_str slack_channel),
                                          (''limit'', to_str message_limit)]
                       in (case response_json (fetch rt 0 slackCall) of
                             Inl err \<Rightarrow> (caught err, [slackCall])
                           | Inr (st, slackData) \<Rightarrow>
                               (case get_prop slackData ''ok'' of
                                  Inl err \<Rightarrow> (caught err, [slackCall])
                                | Inr ok \<Rightarrow>
                                    if \<not> truthy ok
                                    then (res_json 400
                                            [(''error'', js_or (field slackData ''error'')
                                                           (JStr ''Slack API error''))],
                                          [slackCall])
                                    else let messages = js_or (field slackData ''messages'') (JArr [])
                                         in (case markdown_content rt messages of
                                               Inl err \<Rightarrow> (caught err, [slackCall])
                                             | Inr markdownContent \<Rightarrow>
                                                 (let w = context_write e rt github_path commit_message
                                                            messages markdownContent
                                                  in (fst w, slackCall # snd w)))))))"

section \<open>Routing and the authentication middleware\<close>

text \<open>
  The model starts where the authentication middleware is entered: \<^verbatim>\<open>express.json()\<close> and
  \<^verbatim>\<open>cors()\<close>, registered before it, are the framework's own code and have passed the request
  on with \<^verbatim>\<open>req.body\<close> set. Routes match as the framework's router does by default: letter
  case is ignored and one trailing slash is allowed, and a route registered for GET also
  answers HEAD.
\<close>

definition lower_char :: "char \<Rightarrow> char" where
  "lower_char c =
     (let n = (of_char c :: nat) in if 65 \<le> n \<and> n \<le> 90 then char_of (n + 32) else c)"

definition path_matches :: "string \<Rightarrow> string \<Rightarrow> bool" where
  "path_matches route p = (let q = map lower_char p in q = route \<or> q = route @ ''/'')"

definition health :: "runtime \<Rightarrow> http_response" where
  "health rt = res_json 200 [(''status'', JStr ''healthy''), (''timestamp'', JStr (iso_now rt 0))]"

definition functions_catalog :: http_response where
  "functions_catalog =
     res_json 200
       [(''functions'', JArr
          [JObj [(''name'', JStr ''get_slack_messages''),
                 (''description'', JStr ''Get messages from a Slack channel''),
                 (''parameters'', JObj
                    [(''channel'', JStr ''Channel ID or name''),
                     (''limit'', JStr ''Number of messages to retrieve (default: 100)''),
                     (''older_than'', JStr ''Optional: timestamp to get messages older than this'')])],
           JObj [(''name'', JStr ''save_to_github''),
                 (''description'', JStr ''Save content to a GitHub repository''),
                 (''parameters'', JObj
                    [(''path'', JStr ''File path in repository''),
                     (''content'', JStr ''File content''),
                     (''message'', JStr ''Commit message''),
                     (''branch'', JStr ''Branch name (default: main)'')])],
           JObj [(''name'', JStr ''slack_to_github_context''),
                 (''description'', JStr ''Pull Slack messages and save as context file in GitHub''),
                 (''parameters'', JObj
                    [(''slack_channel'', JStr ''Slack channel ID or name''),
                     (''github_path'', JStr ''Path to save in GitHub repository''),
                     (''message_limit'', JStr ''Number of messages to retrieve (default: 100)''),
                     (''commit_message'', JStr ''GitHub commit message'')])]])]"

text \<open>The framework's answer when no route matches; its HTML body is left out.\<close>

definition not_found :: http_response where
  "not_found = \<lparr>res_status = 404, res_body = JUndefined\<rparr>"

definition is_get :: "request \<Rightarrow> bool" where
  "is_get rq = (req_method rq = ''GET'' \<or> req_method rq = ''HEAD'')"

definition routes :: "env \<Rightarrow> runtime \<Rightarrow> request \<Rightarrow> http_response \<times> out_request list" where
  "routes e rt rq =
     (if is_get rq \<and> path_matches ''/health'' (req_path rq) then (health rt, [])
      else if is_get rq \<and> path_matches ''/functions'' (req_path rq) then (functions_catalog, [])
      else if req_method rq = ''POST'' \<and> path_matches ''/functions/get_slack_messages'' (req_path rq)
        then get_slack_messages e rt (req_body rq)
      else if req_method rq = ''POST'' \<and> path_matches ''/functions/save_to_github'' (req_path rq)
        then save_to_github e rt (req_body rq)
      else if req_method rq = ''POST'' \<and> path_matches ''/functions/slack_to_github_context'' (req_path rq)
        then slack_to_github_context e rt (req_body rq)
      else (not_found, []))"

text \<open>
  The authentication middleware (lines 9 to 17) in front of the routes. \<^verbatim>\<open>apiKey\<close> and
  \<^verbatim>\<open>process.env.MCP_API_KEY\<close> are each a string or \<^verbatim>\<open>undefined\<close>, compared with
  \<^verbatim>\<open>!==\<close>.
\<close>

definition app :: "env \<Rightarrow> runtime \<Rightarrow> request \<Rightarrow> http_response \<times> out_request list" where
  "app e rt rq =
     (if req_path rq = ''/health'' then routes e rt rq
      else if req_api_key rq \<noteq> MCP_API_KEY e
        then (res_json 401 [(''error'', JStr ''Unauthorized'')], [])
      else routes e rt rq)"

section \<open>The document the specification describes\<close>

text \<open>
  Section 4.4 of the specification, step 3, in its own words: a title line, a generation
  timestamp, a total-message-count line, a horizontal rule, then for each message a level-3
  heading \<^verbatim>\<open><author> - <human-readable local timestamp>\<close> followed by the message text and a
  trailing horizontal rule. The author is the \<^verbatim>\<open>user\<close> of a message, else its
  \<^verbatim>\<open>username\<close>, else \<^verbatim>\<open>Unknown\<close>.
\<close>

definition author_name :: "jsval \<Rightarrow> string" where
  "author_name m =
     (if truthy (field m ''user'') then to_str (field m ''user'')
      else if truthy (field m ''username'') then to_str (field m ''username'')
      else ''Unknown'')"

definition message_text :: "jsval \<Rightarrow> string" where
  "message_text m = (if truthy (field m ''text'') then to_str (field m ''text'') else [])"

definition message_block :: "runtime \<Rightarrow> jsval \<Rightarrow> string" where
  "message_block rt m =
     ''### '' @ author_name m @ '' - '' @ locale_string rt (field m ''ts'') @ nl @ nl @
     message_text m @ nl @ nl @ ''---''"

text \<open>The document that presents the messages \<open>ms\<close> top to bottom, in the order of \<open>ms\<close>.\<close>

definition document_of :: "runtime \<Rightarrow> jsval list \<Rightarrow> string" where
  "document_of rt ms =
     ''# Slack Context from Channel'' @ nl @
     ''Generated: '' @ iso_now rt 0 @ nl @
     ''Total messages: '' @ int_str (int (length ms)) @ nl @ nl @
     ''---'' @ nl @ nl @
     join (nl @ nl) (map (message_block rt) ms) @ nl"

section \<open>A configuration and a platform to run the handlers on\<close>

text \<open>
  A fully set configuration, and a platform whose network answers the \<open>i\<close>-th call with
  \<open>script i\<close> whatever the request. Its clock is fixed, the local time of a message is shown
  as the \<^verbatim>\<open>ts\<close> itself, and it makes no buffer from an array or an object: the runs
  below send strings only.
\<close>

definition test_env :: env where
  "test_env =
     \<lparr>MCP_API_KEY = Some ''secret'',
      SLACK_BOT_TOKEN = Some ''xoxb-1'',
      GITHUB_TOKEN = Some ''ghp-1'',
      GITHUB_OWNER = Some ''octo'',
      GITHUB_REPO = Some ''notes''\<rparr>"

definition test_runtime :: "(nat \<Rightarrow> fetch_result) \<Rightarrow> runtime" where
  "test_runtime script =
     \<lparr>fetch = (\<lambda>i r. script i),
      iso_now = (\<lambda>i. ''2024-05-01T10:00:00.000Z''),
      locale_string = to_str,
      buffer_base64 = (\<lambda>v. Inl (TypeError ''no buffer''))\<rparr>"

text \<open>A network on which every call is rejected.\<close>

definition offline :: "nat \<Rightarrow> fetch_result" where
  "offline i = Rejects ''down''"

text \<open>A message that has only a timestamp.\<close>

definition ts_msg :: "string \<Rightarrow> jsval" where
  "ts_msg t = JObj [(''ts'', JStr t)]"

text \<open>The same configuration with the shared secret left unset.\<close>

definition keyless_env :: env where
  "keyless_env = test_env\<lparr>MCP_API_KEY := None\<rparr>"

text \<open>A history request for channel \<^verbatim>\<open>C1\<close> that carries no \<^verbatim>\<open>x-api-key\<close> header.\<close>

definition history_request :: request where
  "history_request =
     \<lparr>req_method = ''POST'',
      req_path = ''/functions/get_slack_messages'',
      req_api_key = None,
      req_body = JObj [(''channel'', JStr ''C1'')]\<rparr>"

text \<open>
  Network scripts: the outcome of the lookup and then of the write, for \<^verbatim>\<open>save_to_github\<close>;
  a history answered 200 with the given JSON, then the lookup and the write, for the composite
  handler.
\<close>

definition write_script :: "fetch_result \<Rightarrow> fetch_result \<Rightarrow> nat \<Rightarrow> fetch_result" where
  "write_script looked written i = (if i = 0 then looked else written)"

definition context_script :: "jsval \<Rightarrow> fetch_result \<Rightarrow> fetch_result \<Rightarrow> nat \<Rightarrow> fetch_result" where
  "context_script history looked written i =
     (if i = 0 then Responds 200 (Inr history) else if i = 1 then looked else written)"

text \<open>A history of three messages, returned in the order 3, 1, 2 of their timestamps.\<close>

definition three_messages :: jsval where
  "three_messages =
     JObj [(''ok'', JBool True), (''messages'', JArr [ts_msg ''3'', ts_msg ''1'', ts_msg ''2''])]"

definition context_body :: jsval where
  "context_body = JObj [(''slack_channel'', JStr ''C1''), (''github_path'', JStr ''notes/context.md'')]"

definition save_body :: jsval where
  "save_body =
     JObj [(''path'', JStr ''notes/a.md''), (''content'', JStr ''hello''), (''branch'', JStr ''dev'')]"

text \<open>The store's answer to a lookup of a path that does not exist.\<close>

definition not_found_answer :: fetch_result where
  "not_found_answer = Responds 404 (Inr (JObj [(''message'', JStr ''Not Found'')]))"

text \<open>
  Platforms for the runs below: the composite handler on \<open>three_messages\<close> with no file
  found and a given outcome of the write; \<^verbatim>\<open>save_to_github\<close> with a file found under token
  \<^verbatim>\<open>abc\<close> and a successful write; a history call answered with a given JSON object.
\<close>

definition context_runtime :: "fetch_result \<Rightarrow> runtime" where
  "context_runtime written = test_runtime (context_script three_messages not_found_answer written)"

definition save_runtime :: runtime where
  "save_runtime =
     test_runtime (write_script (Responds 200 (Inr (JObj [(''sha'', JStr ''abc'')])))
                                (Responds 201 (Inr (JObj []))))"

definition history_runtime :: "(string \<times> jsval) list \<Rightarrow> runtime" where
  "history_runtime d = test_runtime (\<lambda>i. Responds 200 (Inr (JObj d)))"

text \<open>
  Two messages as the provider returns them, newest first: one posted by a bot under a
  \<^verbatim>\<open>username\<close> and without text, one posted by a user.
\<close>

definition two_messages :: "jsval list" where
  "two_messages =
     [JObj [(''ts'', JStr ''1700000002.000200''), (''username'', JStr ''deploy-bot'')],
      JObj [(''ts'', JStr ''1700000001.000100''), (''user'', JStr ''U42''), (''text'', JStr ''hello'')]]"

text \<open>The outbound calls of these runs.\<close>

definition history_call :: out_request where
  "history_call = slack_call ''xoxb-1'' [(''channel'', ''C1''), (''limit'', ''100'')]"

definition context_lookup :: out_request where
  "context_lookup =
     lookup_call ''https://api.github.com/repos/octo/notes/contents/notes/context.md'' ''ghp-1''"

definition context_put :: "fetch_result \<Rightarrow> out_request" where
  "context_put written =
     put_call ''https://api.github.com/repos/octo/notes/contents/notes/context.md'' ''ghp-1''
       [(''message'', JStr ''Update Slack context - 2024-05-01T10:00:00.000Z''),
        (''content'', JStr (base64 (document_of (context_runtime written)
                                      [ts_msg ''2'', ts_msg ''1'', ts_msg ''3'']))),
        (''branch'', JStr ''main'')]"

definition save_lookup :: out_request where
  "save_lookup =
     lookup_call ''https://api.github.com/repos/octo/notes/contents/notes/a.md?ref=dev'' ''ghp-1''"

definition save_put :: out_request where
  "save_put =
     put_call ''https://api.github.com/repos/octo/notes/contents/notes/a.md'' ''ghp-1''
       [(''message'', JStr ''Update from Slack context''),
        (''content'', JStr ''aGVsbG8=''),
        (''branch'', JStr ''dev''),
        (''sha'', JStr ''abc'')]"

section \<open>Facts shared by the proofs\<close>

lemmas value_defs =
  nullish_def destructure_def get_prop_def opt_prop_def js_or_def with_default_def
  configured_def res_json_def caught_def response_json_def ok_status_def

lemmas run_defs =
  test_env_def test_runtime_def routes_def is_get_def path_matches_def lower_char_def
  int_str_def digits.simps digit_char_def slack_call_def github_config_def contents_url_def
  lookup_call_def existing_sha_def put_body_def put_call_def content_base64_def

lemmas fixture_defs =
  write_script_def context_script_def three_messages_def context_body_def
  save_body_def not_found_answer_def ts_msg_def

text \<open>A history handler that made its call answers with what that call returned.\<close>

lemma get_slack_messages_calls:
  "snd (get_slack_messages e rt b) = [call] \<Longrightarrow>
   fst (get_slack_messages e rt b) = messages_reply (response_json (fetch rt 0 call))"
  by (auto simp: get_slack_messages_def Let_def split: sum.splits if_splits option.splits)

text \<open>
  A write handler that made both of its calls: which calls they were, and what it answers.
\<close>

lemma save_to_github_calls:
  "snd (save_to_github e rt b) = [check, put] \<Longrightarrow>
   \<exists>githubToken githubOwner githubRepo encoded.
     github_config e = Some (githubToken, githubOwner, githubRepo) \<and>
     check = lookup_call (contents_url githubOwner githubRepo (to_str (field b ''path'')) @ ''?ref='' @
                          to_str (with_default (field b ''branch'') (JStr ''main''))) githubToken \<and>
     put = put_call (contents_url githubOwner githubRepo (to_str (field b ''path''))) githubToken
             (put_body (js_or (field b ''message'') (JStr ''Update from Slack context'')) encoded
                (with_default (field b ''branch'') (JStr ''main'')) (existing_sha (fetch rt 0 check))) \<and>
     fst (save_to_github e rt b) = save_reply (response_json (fetch rt 1 put))"
  by (auto simp: save_to_github_def Let_def split: sum.splits if_splits option.splits)

text \<open>The same for the composite handler, which makes three calls or at most one.\<close>

lemma context_calls:
  "snd (slack_to_github_context e rt b) = [slackCall, check, put] \<Longrightarrow>
   \<exists>githubToken githubOwner githubRepo st slackData markdownContent.
     github_config e = Some (githubToken, githubOwner, githubRepo) \<and>
     response_json (fetch rt 0 slackCall) = Inr (st, slackData) \<and>
     markdown_content rt (js_or (field slackData ''messages'') (JArr [])) = Inr markdownContent \<and>
     check = lookup_call (contents_url githubOwner githubRepo (to_str (field b ''github_path''))) githubToken \<and>
     put = put_call (contents_url githubOwner githubRepo (to_str (field b ''github_path''))) githubToken
             (put_body (js_or (field b ''commit_message'') (JStr (''Update Slack context - '' @ iso_now rt 1)))
                (base64 markdownContent) (JStr ''main'') (existing_sha (fetch rt 1 check))) \<and>
     fst (slack_to_github_context e rt b) =
       context_reply (js_or (field slackData ''messages'') (JArr [])) (response_json (fetch rt 2 put))"
  by (auto simp: slack_to_github_context_def context_write_def Let_def
           split: sum.splits if_splits option.splits)

text \<open>
  Rendering: a message that is neither \<^verbatim>\<open>null\<close> nor \<^verbatim>\<open>undefined\<close> renders to the block
  the specification describes, and a list of such messages to the document.
\<close>

lemma render_message_ok:
  "\<not> nullish m \<Longrightarrow> render_message rt m = Inr (message_block rt m)"
  by (simp add: render_message_def message_block_def author_name_def message_text_def
        get_prop_def js_or_def Let_def)

lemma map_err_render:
  "list_all (\<lambda>m. \<not> nullish m) ms \<Longrightarrow>
   map_err (render_message rt) ms = Inr (map (message_block rt) ms)"
  by (induction ms) (simp_all add: render_message_ok)

lemma markdown_content_ok:
  assumes "list_all (\<lambda>m. \<not> nullish m) msgs"
  shows "markdown_content rt (JArr msgs) =
     Inr (''# Slack Context from Channel'' @ nl @
          ''Generated: '' @ iso_now rt 0 @ nl @
          ''Total messages: '' @ int_str (int (length msgs)) @ nl @ nl @
          ''---'' @ nl @ nl @
          join (nl @ nl) (map (message_block rt) (rev msgs)) @ nl)"
proof -
  from assms have "list_all (\<lambda>m. \<not> nullish m) (rev msgs)"
    by (simp add: list_all_iff)
  then show ?thesis
    by (simp add: markdown_content_def map_err_render)
qed

text \<open>Conversely, rendering succeeds only on such messages.\<close>

lemma messages_not_nullish:
  "map_err (render_message rt) ms = Inr bs \<Longrightarrow> list_all (\<lambda>m. \<not> nullish m) ms"
  by (induction ms arbitrary: bs)
     (auto simp: render_message_def get_prop_def split: sum.splits if_splits)

lemma markdown_content_document:
  assumes "markdown_content rt (JArr msgs) = Inr md"
  shows "md = document_of rt (rev msgs)"
proof -
  from assms obtain bs where "map_err (render_message rt) (rev msgs) = Inr bs"
    by (auto simp: markdown_content_def split: sum.splits)
  then have "list_all (\<lambda>m. \<not> nullish m) (rev msgs)"
    by (rule messages_not_nullish)
  then have "list_all (\<lambda>m. \<not> nullish m) msgs"
    by (simp add: list_all_iff)
  from markdown_content_ok[OF this, of rt] assms show ?thesis
    by (simp add: document_of_def)
qed

text \<open>The runs of the handlers on the requests and platforms defined above.\<close>

lemma history_run:
  "get_slack_messages test_env (test_runtime script) (JObj [(''channel'', JStr ''C1'')]) =
     (messages_reply (response_json (script 0)), [history_call])"
  by (simp add: get_slack_messages_def history_call_def value_defs run_defs Let_def)

lemma context_run:
  "slack_to_github_context test_env (context_runtime written) context_body =
     (context_reply (JArr [ts_msg ''3'', ts_msg ''1'', ts_msg ''2'']) (response_json written),
      [history_call, context_lookup, context_put written])"
  by (simp add: slack_to_github_context_def context_write_def context_runtime_def fixture_defs
        history_call_def context_lookup_def context_put_def
        value_defs run_defs markdown_content_ok document_of_def Let_def)

lemma save_run:
  "save_to_github test_env save_runtime save_body =
     (\<lparr>res_status = 200, res_body = JObj [(''success'', JBool True)]\<rparr>, [save_lookup, save_put])"
  by (simp add: save_to_github_def save_reply_def save_runtime_def fixture_defs
        save_lookup_def save_put_def value_defs run_defs base64_def base64_char_def Let_def)

lemma context_runtime_fetch:
  "fetch (context_runtime written) 0 r = Responds 200 (Inr three_messages)"
  "fetch (context_runtime written) 1 r = not_found_answer"
  "fetch (context_runtime written) 2 r = written"
  by (simp_all add: context_runtime_def test_runtime_def context_script_def)

lemma save_runtime_fetch:
  "fetch save_runtime 0 r = Responds 200 (Inr (JObj [(''sha'', JStr ''abc'')]))"
  "fetch save_runtime 1 r = Responds 201 (Inr (JObj []))"
  by (simp_all add: save_runtime_def test_runtime_def write_script_def)

section \<open>The authentication middleware\<close>

text \<open>
  With a secret configured, the middleware rejects every request off \<^verbatim>\<open>/health\<close> whose header
  is absent or different, and nothing else runs.
\<close>

lemma auth_rejects_with_secret_set:
  "req_path rq \<noteq> ''/health'' \<Longrightarrow> MCP_API_KEY e = Some k \<Longrightarrow> req_api_key rq \<noteq> Some k \<Longrightarrow>
   app e rt rq = (\<lparr>res_status = 401, res_body = JObj [(''error'', JStr ''Unauthorized'')]\<rparr>, [])"
  by (simp add: app_def res_json_def)

text \<open>
  Claim C2: every request off \<^verbatim>\<open>/health\<close> whose \<^verbatim>\<open>x-api-key\<close> header is absent or
  differs from the configured secret is answered 401 \<^verbatim>\<open>{error:"Unauthorized"}\<close>, and no handler
  logic runs. The code does not do this when \<^verbatim>\<open>MCP_API_KEY\<close> is unset: the request below
  carries no header, passes the middleware, and the history handler makes its outbound call
  and answers 200.
\<close>

theorem auth_passes_headerless_request_without_secret:
  "app keyless_env
     (history_runtime [(''ok'', JBool True), (''messages'', JArr [])])
     history_request
   = (\<lparr>res_status = 200,
       res_body = JObj [(''success'', JBool True), (''messages'', JArr []),
                        (''count'', JNum 0), (''has_more'', JBool False)]\<rparr>,
      [slack_call ''xoxb-1'' [(''channel'', ''C1''), (''limit'', ''100'')]])"
  by (simp add: app_def keyless_env_def history_request_def history_runtime_def
        get_slack_messages_def messages_reply_def value_defs run_defs)

text \<open>
  Claim C9: when \<^verbatim>\<open>MCP_API_KEY\<close> is unset, every request that carries no
  \<^verbatim>\<open>x-api-key\<close> header passes the authentication middleware and is handed to the routes:
  \<^verbatim>\<open>undefined !== undefined\<close> is false.
\<close>

theorem unset_secret_lets_request_through:
  "MCP_API_KEY e = None \<Longrightarrow> req_api_key rq = None \<Longrightarrow> app e rt rq = routes e rt rq"
  by (simp add: app_def)

theorem unset_secret_lets_request_through_witness:
  "MCP_API_KEY keyless_env = None \<and>
   req_api_key \<lparr>req_method = ''GET'', req_path = ''/functions'', req_api_key = None,
                req_body = JObj []\<rparr> = None \<and>
   app keyless_env (test_runtime offline)
     \<lparr>req_method = ''GET'', req_path = ''/functions'', req_api_key = None, req_body = JObj []\<rparr>
   = (functions_catalog, [])"
  using unset_secret_lets_request_through
          [where e = keyless_env and rt = "test_runtime offline"
             and rq = "\<lparr>req_method = ''GET'', req_path = ''/functions'', req_api_key = None,
                        req_body = JObj []\<rparr>"]
  by (simp add: keyless_env_def run_defs)

section \<open>Validation and configuration checks\<close>




text \<open>
  Claim C8: for a validated request, \<^verbatim>\<open>get_slack_messages\<close> answers 500 with an error body
  when \<^verbatim>\<open>SLACK_BOT_TOKEN\<close> is unset, and \<^verbatim>\<open>save_to_github\<close> answers 500 with an error body
  when any of \<^verbatim>\<open>GITHUB_TOKEN\<close>, \<^verbatim>\<open>GITHUB_OWNER\<close>, \<^verbatim>\<open>GITHUB_REPO\<close> is unset; in both cases
  no outbound call has been made.
\<close>

theorem missing_configuration_rejected_before_any_call:
  "(\<not> nullish b \<longrightarrow> truthy (field b ''channel'') \<longrightarrow> SLACK_BOT_TOKEN e = None \<longrightarrow>
      get_slack_messages e rt b =
        (\<lparr>res_status = 500,
          res_body = JObj [(''error'', JStr ''SLACK_BOT_TOKEN not configured'')]\<rparr>, []))
   \<and> (\<not> nullish b \<longrightarrow> truthy (field b ''path'') \<longrightarrow> truthy (field b ''content'') \<longrightarrow>
       GITHUB_TOKEN e = None \<or> GITHUB_OWNER e = None \<or> GITHUB_REPO e = None \<longrightarrow>
      save_to_github e rt b =
        (\<lparr>res_status = 500,
          res_body = JObj [(''error'', JStr ''GitHub credentials not configured'')]\<rparr>, []))"
  by (auto simp: get_slack_messages_def save_to_github_def value_defs github_config_def
           split: option.splits)

theorem missing_configuration_rejected_before_any_call_witness:
  "\<not> nullish (JObj [(''channel'', JStr ''C1'')]) \<and>
   truthy (field (JObj [(''channel'', JStr ''C1'')]) ''channel'') \<and>
   SLACK_BOT_TOKEN (test_env\<lparr>SLACK_BOT_TOKEN := None\<rparr>) = None \<and>
   get_slack_messages (test_env\<lparr>SLACK_BOT_TOKEN := None\<rparr>) (test_runtime offline)
       (JObj [(''channel'', JStr ''C1'')]) =
     (\<lparr>res_status = 500,
       res_body = JObj [(''error'', JStr ''SLACK_BOT_TOKEN not configured'')]\<rparr>, []) \<and>
   \<not> nullish (JObj [(''path'', JStr ''notes/a.md''), (''content'', JStr ''hello'')]) \<and>
   truthy (field (JObj [(''path'', JStr ''notes/a.md''), (''content'', JStr ''hello'')]) ''path'') \<and>
   truthy (field (JObj [(''path'', JStr ''notes/a.md''), (''content'', JStr ''hello'')]) ''content'') \<and>
   GITHUB_REPO (test_env\<lparr>GITHUB_REPO := None\<rparr>) = None \<and>
   save_to_github (test_env\<lparr>GITHUB_REPO := None\<rparr>) (test_runtime offline)
       (JObj [(''path'', JStr ''notes/a.md''), (''content'', JStr ''hello'')]) =
     (\<lparr>res_status = 500,
       res_body = JObj [(''error'', JStr ''GitHub credentials not configured'')]\<rparr>, [])"
  using missing_configuration_rejected_before_any_call
          [where b = "JObj [(''channel'', JStr ''C1'')]"
             and e = "test_env\<lparr>SLACK_BOT_TOKEN := None\<rparr>"
             and rt = "test_runtime offline"]
        missing_configuration_rejected_before_any_call
          [where b = "JObj [(''path'', JStr ''notes/a.md''), (''content'', JStr ''hello'')]"
             and e = "test_env\<lparr>GITHUB_REPO := None\<rparr>"
             and rt = "test_runtime offline"]
  by (simp add: nullish_def)

section \<open>Errors reported by the providers\<close>

text \<open>
  Claim C6, as the code has it: when the history call is answered with \<^verbatim>\<open>ok:false\<close> and a
  non-empty error string \<open>X\<close>, \<^verbatim>\<open>get_slack_messages\<close> answers 400 with
  \<^verbatim>\<open>{error: X}\<close>; when the error string is absent or empty, the body is
  \<^verbatim>\<open>{error: "Slack API error"}\<close>.
\<close>

theorem slack_error_forwarded:
  assumes "snd (get_slack_messages e rt b) = [call]"
    and "fetch rt 0 call = Responds st (Inr (JObj d))"
    and "map_of d ''ok'' = Some (JBool False)"
  shows "(map_of d ''error'' = Some (JStr X) \<and> X \<noteq> [] \<longrightarrow>
            fst (get_slack_messages e rt b) =
              \<lparr>res_status = 400, res_body = JObj [(''error'', JStr X)]\<rparr>)
       \<and> (map_of d ''error'' = None \<or> map_of d ''error'' = Some (JStr []) \<longrightarrow>
            fst (get_slack_messages e rt b) =
              \<lparr>res_status = 400, res_body = JObj [(''error'', JStr ''Slack API error'')]\<rparr>)"
  using assms(2,3) get_slack_messages_calls[OF assms(1)]
  by (auto simp: messages_reply_def value_defs)

theorem slack_error_forwarded_witness:
  "snd (get_slack_messages test_env
          (history_runtime [(''ok'', JBool False), (''error'', JStr ''channel_not_found'')])
          (JObj [(''channel'', JStr ''C1'')])) = [history_call] \<and>
   fetch (history_runtime [(''ok'', JBool False), (''error'', JStr ''channel_not_found'')]) 0
       history_call
     = Responds 200 (Inr (JObj [(''ok'', JBool False), (''error'', JStr ''channel_not_found'')])) \<and>
   fst (get_slack_messages test_env
          (history_runtime [(''ok'', JBool False), (''error'', JStr ''channel_not_found'')])
          (JObj [(''channel'', JStr ''C1'')]))
     = \<lparr>res_status = 400, res_body = JObj [(''error'', JStr ''channel_not_found'')]\<rparr> \<and>
   snd (get_slack_messages test_env (history_runtime [(''ok'', JBool False)])
          (JObj [(''channel'', JStr ''C1'')])) = [history_call] \<and>
   fetch (history_runtime [(''ok'', JBool False)]) 0 history_call
     = Responds 200 (Inr (JObj [(''ok'', JBool False)])) \<and>
   fst (get_slack_messages test_env (history_runtime [(''ok'', JBool False)])
          (JObj [(''channel'', JStr ''C1'')]))
     = \<lparr>res_status = 400, res_body = JObj [(''error'', JStr ''Slack API error'')]\<rparr>"
proof -
  let ?b = "JObj [(''channel'', JStr ''C1'')]"
  let ?d1 = "[(''ok'', JBool False), (''error'', JStr ''channel_not_found'')]"
  let ?d2 = "[(''ok'', JBool False)]"
  have c1: "snd (get_slack_messages test_env (history_runtime ?d1) ?b) = [history_call]"
    and c2: "snd (get_slack_messages test_env (history_runtime ?d2) ?b) = [history_call]"
    by (simp_all add: history_runtime_def history_run)
  have f1: "fetch (history_runtime ?d1) 0 history_call = Responds 200 (Inr (JObj ?d1))"
    and f2: "fetch (history_runtime ?d2) 0 history_call = Responds 200 (Inr (JObj ?d2))"
    by (simp_all add: history_runtime_def test_runtime_def)
  from slack_error_forwarded[OF c1 f1, of "''channel_not_found''"]
       slack_error_forwarded[OF c2 f2, of "[]"] c1 c2 f1 f2
  show ?thesis by simp
qed

text \<open>
  The claim as it is written, for every error string: it fails for the empty one, which
  \<^verbatim>\<open>data.error || 'Slack API error'\<close> replaces.
\<close>

theorem slack_empty_error_counterexample:
  "fst (get_slack_messages test_env
          (history_runtime [(''ok'', JBool False), (''error'', JStr [])])
          (JObj [(''channel'', JStr ''C1'')]))
     = \<lparr>res_status = 400, res_body = JObj [(''error'', JStr ''Slack API error'')]\<rparr>
   \<and> fst (get_slack_messages test_env
          (history_runtime [(''ok'', JBool False), (''error'', JStr [])])
          (JObj [(''channel'', JStr ''C1'')]))
     \<noteq> \<lparr>res_status = 400, res_body = JObj [(''error'', JStr [])]\<rparr>"
  by (simp add: history_runtime_def history_run messages_reply_def value_defs)

section \<open>The version token and the branch of the write\<close>

text \<open>
  Claim C4: in both handlers that write, the body of the create-or-update request has a
  \<^verbatim>\<open>sha\<close> field exactly when the lookup call before it resolved to an ok response whose JSON
  body has a truthy \<^verbatim>\<open>sha\<close>, and the field is that value; otherwise the body has no
  \<^verbatim>\<open>sha\<close> field.
\<close>

theorem write_includes_sha_iff_found:
  "(snd (save_to_github e rt b) = [check, put] \<longrightarrow>
      (\<exists>body. out_body put = Some (JObj body) \<and>
         (\<forall>v. (map_of body ''sha'' = Some v) =
              (\<exists>st existing. fetch rt 0 check = Responds st (Inr existing) \<and> ok_status st \<and>
                 get_prop existing ''sha'' = Inr v \<and> truthy v))))
   \<and> (snd (slack_to_github_context e rt b) = [slackCall, check', put'] \<longrightarrow>
      (\<exists>body. out_body put' = Some (JObj body) \<and>
         (\<forall>v. (map_of body ''sha'' = Some v) =
              (\<exists>st existing. fetch rt 1 check' = Responds st (Inr existing) \<and> ok_status st \<and>
                 get_prop existing ''sha'' = Inr v \<and> truthy v))))"
proof (intro conjI impI)
  assume "snd (save_to_github e rt b) = [check, put]"
  from save_to_github_calls[OF this] obtain u t m c br where
    put: "put = put_call u t (put_body m c br (existing_sha (fetch rt 0 check)))"
    by blast
  show "\<exists>body. out_body put = Some (JObj body) \<and>
         (\<forall>v. (map_of body ''sha'' = Some v) =
              (\<exists>st existing. fetch rt 0 check = Responds st (Inr existing) \<and> ok_status st \<and>
                 get_prop existing ''sha'' = Inr v \<and> truthy v))"
    unfolding put
    by (auto simp: put_call_def put_body_def existing_sha_def
             split: fetch_result.splits sum.splits if_splits)
next
  assume "snd (slack_to_github_context e rt b) = [slackCall, check', put']"
  from context_calls[OF this] obtain u t m c br where
    put: "put' = put_call u t (put_body m c br (existing_sha (fetch rt 1 check')))"
    by blast
  show "\<exists>body. out_body put' = Some (JObj body) \<and>
         (\<forall>v. (map_of body ''sha'' = Some v) =
              (\<exists>st existing. fetch rt 1 check' = Responds st (Inr existing) \<and> ok_status st \<and>
                 get_prop existing ''sha'' = Inr v \<and> truthy v))"
    unfolding put
    by (auto simp: put_call_def put_body_def existing_sha_def
             split: fetch_result.splits sum.splits if_splits)
qed

theorem write_includes_sha_iff_found_witness:
  "snd (save_to_github test_env save_runtime save_body) = [save_lookup, save_put] \<and>
   fetch save_runtime 0 save_lookup = Responds 200 (Inr (JObj [(''sha'', JStr ''abc'')])) \<and>
   (\<exists>body. out_body save_put = Some (JObj body) \<and> map_of body ''sha'' = Some (JStr ''abc'')) \<and>
   snd (slack_to_github_context test_env (context_runtime (Responds 201 (Inr (JObj [])))) context_body)
     = [history_call, context_lookup, context_put (Responds 201 (Inr (JObj [])))] \<and>
   fetch (context_runtime (Responds 201 (Inr (JObj [])))) 1 context_lookup = not_found_answer \<and>
   (\<exists>body. out_body (context_put (Responds 201 (Inr (JObj [])))) = Some (JObj body) \<and>
      map_of body ''sha'' = None)"
proof -
  let ?w = "Responds 201 (Inr (JObj []))"
  let ?rt = "context_runtime ?w"
  have s: "snd (save_to_github test_env save_runtime save_body) = [save_lookup, save_put]"
    by (simp add: save_run)
  have c: "snd (slack_to_github_context test_env ?rt context_body)
             = [history_call, context_lookup, context_put ?w]"
    by (simp add: context_run)
  have f: "fetch save_runtime 0 save_lookup = Responds 200 (Inr (JObj [(''sha'', JStr ''abc'')]))"
    by (rule save_runtime_fetch)
  have f': "fetch ?rt 1 context_lookup = not_found_answer"
    by (rule context_runtime_fetch)
  from write_includes_sha_iff_found[THEN conjunct1, rule_format, OF s]
  obtain body where b: "out_body save_put = Some (JObj body)"
    and iff: "\<And>v. (map_of body ''sha'' = Some v) =
       (\<exists>st existing. fetch save_runtime 0 save_lookup = Responds st (Inr existing) \<and> ok_status st \<and>
          get_prop existing ''sha'' = Inr v \<and> truthy v)"
    by blast
  have "map_of body ''sha'' = Some (JStr ''abc'')"
    unfolding iff f by (simp add: ok_status_def get_prop_def nullish_def)
  with b have 1: "\<exists>body. out_body save_put = Some (JObj body) \<and> map_of body ''sha'' = Some (JStr ''abc'')"
    by blast
  from write_includes_sha_iff_found[THEN conjunct2, rule_format, OF c]
  obtain body' where b': "out_body (context_put ?w) = Some (JObj body')"
    and iff': "\<And>v. (map_of body' ''sha'' = Some v) =
       (\<exists>st existing. fetch ?rt 1 context_lookup = Responds st (Inr existing) \<and> ok_status st \<and>
          get_prop existing ''sha'' = Inr v \<and> truthy v)"
    by blast
  have "\<And>v. map_of body' ''sha'' \<noteq> Some v"
    unfolding iff' f' by (simp add: ok_status_def not_found_answer_def)
  then have "map_of body' ''sha'' = None"
    by (cases "map_of body' ''sha''") auto
  with b' have 2: "\<exists>body. out_body (context_put ?w) = Some (JObj body) \<and> map_of body ''sha'' = None"
    by blast
  from s c f f' 1 2 show ?thesis by blast
qed

text \<open>
  Claim C10: in the composite handler the lookup is made at the contents URL of the path with
  nothing appended (no \<^verbatim>\<open>ref\<close>, so the store looks on its default branch), and the write
  that follows names branch \<^verbatim>\<open>main\<close>; in \<^verbatim>\<open>save_to_github\<close> the lookup URL ends in
  \<^verbatim>\<open>?ref=\<close> and the requested branch, the branch the write names.
\<close>

theorem lookup_branch_parameter:
  "(snd (slack_to_github_context e rt b) = [slackCall, check, put] \<longrightarrow>
      (\<exists>githubToken githubOwner githubRepo body.
         github_config e = Some (githubToken, githubOwner, githubRepo) \<and>
         out_url check = contents_url githubOwner githubRepo (to_str (field b ''github_path'')) \<and>
         out_params check = [] \<and>
         out_url put = out_url check \<and>
         out_body put = Some (JObj body) \<and>
         map_of body ''branch'' = Some (JStr ''main'')))
   \<and> (snd (save_to_github e rt b) = [check', put'] \<longrightarrow>
      (\<exists>githubToken githubOwner githubRepo body.
         github_config e = Some (githubToken, githubOwner, githubRepo) \<and>
         out_url check' = contents_url githubOwner githubRepo (to_str (field b ''path'')) @ ''?ref='' @
                            to_str (with_default (field b ''branch'') (JStr ''main'')) \<and>
         out_params check' = [] \<and>
         out_url put' = contents_url githubOwner githubRepo (to_str (field b ''path'')) \<and>
         out_body put' = Some (JObj body) \<and>
         map_of body ''branch'' = Some (with_default (field b ''branch'') (JStr ''main''))))"
proof (intro conjI impI)
  assume "snd (slack_to_github_context e rt b) = [slackCall, check, put]"
  from context_calls[OF this]
  show "\<exists>githubToken githubOwner githubRepo body.
         github_config e = Some (githubToken, githubOwner, githubRepo) \<and>
         out_url check = contents_url githubOwner githubRepo (to_str (field b ''github_path'')) \<and>
         out_params check = [] \<and>
         out_url put = out_url check \<and>
         out_body put = Some (JObj body) \<and>
         map_of body ''branch'' = Some (JStr ''main'')"
    by (auto simp: lookup_call_def put_call_def put_body_def)
next
  assume "snd (save_to_github e rt b) = [check', put']"
  from save_to_github_calls[OF this]
  show "\<exists>githubToken githubOwner githubRepo body.
         github_config e = Some (githubToken, githubOwner, githubRepo) \<and>
         out_url check' = contents_url githubOwner githubRepo (to_str (field b ''path'')) @ ''?ref='' @
                            to_str (with_default (field b ''branch'') (JStr ''main'')) \<and>
         out_params check' = [] \<and>
         out_url put' = contents_url githubOwner githubRepo (to_str (field b ''path'')) \<and>
         out_body put' = Some (JObj body) \<and>
         map_of body ''branch'' = Some (with_default (field b ''branch'') (JStr ''main''))"
    by (auto simp: lookup_call_def put_call_def put_body_def)
qed

theorem lookup_branch_parameter_witness:
  "snd (slack_to_github_context test_env (context_runtime (Responds 201 (Inr (JObj [])))) context_body)
     = [history_call, context_lookup, context_put (Responds 201 (Inr (JObj [])))] \<and>
   out_url context_lookup = ''https://api.github.com/repos/octo/notes/contents/notes/context.md'' \<and>
   out_params context_lookup = [] \<and>
   out_url (context_put (Responds 201 (Inr (JObj [])))) = out_url context_lookup \<and>
   (\<exists>body. out_body (context_put (Responds 201 (Inr (JObj [])))) = Some (JObj body) \<and>
      map_of body ''branch'' = Some (JStr ''main'')) \<and>
   snd (save_to_github test_env save_runtime save_body) = [save_lookup, save_put] \<and>
   out_url save_lookup = ''https://api.github.com/repos/octo/notes/contents/notes/a.md?ref=dev'' \<and>
   out_url save_put = ''https://api.github.com/repos/octo/notes/contents/notes/a.md'' \<and>
   (\<exists>body. out_body save_put = Some (JObj body) \<and> map_of body ''branch'' = Some (JStr ''dev''))"
proof -
  let ?w = "Responds 201 (Inr (JObj []))"
  have s: "snd (save_to_github test_env save_runtime save_body) = [save_lookup, save_put]"
    by (simp add: save_run)
  have c: "snd (slack_to_github_context test_env (context_runtime ?w) context_body)
             = [history_call, context_lookup, context_put ?w]"
    by (simp add: context_run)
  have cfg: "github_config test_env = Some (''ghp-1'', ''octo'', ''notes'')"
    by (simp add: github_config_def test_env_def configured_def)
  from lookup_branch_parameter[THEN conjunct1, rule_format, OF c] cfg
  have 1: "out_url context_lookup = ''https://api.github.com/repos/octo/notes/contents/notes/context.md'' \<and>
   out_params context_lookup = [] \<and>
   out_url (context_put ?w) = out_url context_lookup \<and>
   (\<exists>body. out_body (context_put ?w) = Some (JObj body) \<and>
      map_of body ''branch'' = Some (JStr ''main''))"
    by (auto simp: contents_url_def context_body_def)
  from lookup_branch_parameter[THEN conjunct2, rule_format, OF s] cfg
  have 2: "out_url save_lookup = ''https://api.github.com/repos/octo/notes/contents/notes/a.md?ref=dev'' \<and>
   out_url save_put = ''https://api.github.com/repos/octo/notes/contents/notes/a.md'' \<and>
   (\<exists>body. out_body save_put = Some (JObj body) \<and> map_of body ''branch'' = Some (JStr ''dev''))"
    by (auto simp: contents_url_def save_body_def with_default_def)
  from s c 1 2 show ?thesis by blast
qed

section \<open>A write that fails after the messages were fetched\<close>

text \<open>
  Claim C3, as the code has it: the composite handler has made its three calls and the
  history call returned \<open>n\<close> messages. When the store answers the write with a status
  outside 200 to 299 and a JSON body other than \<^verbatim>\<open>null\<close>, the response has that status, an
  \<^verbatim>\<open>error\<close> field (the store's \<^verbatim>\<open>message\<close>, or \<^verbatim>\<open>GitHub API error\<close> when there is none)
  and \<^verbatim>\<open>slack_messages_retrieved\<close> equal to \<open>n\<close>, and nothing else. When the write call is
  rejected in transport, or its answer does not parse as JSON, the response is 500 with an
  \<^verbatim>\<open>error\<close> field only.
\<close>

theorem context_write_failure_reports_retrieved:
  assumes "snd (slack_to_github_context e rt b) = [slackCall, check, put]"
    and "fetch rt 0 slackCall = Responds st0 (Inr slackData)"
    and "field slackData ''messages'' = JArr msgs"
  shows "(fetch rt 2 put = Responds st (Inr githubData) \<and> \<not> ok_status st \<and> \<not> nullish githubData \<longrightarrow>
            fst (slack_to_github_context e rt b) =
              \<lparr>res_status = st,
               res_body = JObj [(''error'', js_or (field githubData ''message'') (JStr ''GitHub API error'')),
                                (''slack_messages_retrieved'', JNum (int (length msgs)))]\<rparr>)
       \<and> (fetch rt 2 put = Rejects m \<or> fetch rt 2 put = Responds st (Inl m) \<longrightarrow>
            fst (slack_to_github_context e rt b) =
              \<lparr>res_status = 500, res_body = JObj [(''error'', JStr m)]\<rparr>)"
  using context_calls[OF assms(1)] assms(2,3)
  by (auto simp: context_reply_def value_defs)

theorem context_write_failure_reports_retrieved_witness:
  "snd (slack_to_github_context test_env
          (context_runtime (Responds 409 (Inr (JObj [(''message'', JStr ''conflict'')])))) context_body)
     = [history_call, context_lookup,
        context_put (Responds 409 (Inr (JObj [(''message'', JStr ''conflict'')])))] \<and>
   fetch (context_runtime (Responds 409 (Inr (JObj [(''message'', JStr ''conflict'')])))) 0 history_call
     = Responds 200 (Inr three_messages) \<and>
   field three_messages ''messages'' = JArr [ts_msg ''3'', ts_msg ''1'', ts_msg ''2''] \<and>
   \<not> ok_status 409 \<and> \<not> nullish (JObj [(''message'', JStr ''conflict'')]) \<and>
   fst (slack_to_github_context test_env
          (context_runtime (Responds 409 (Inr (JObj [(''message'', JStr ''conflict'')])))) context_body)
     = \<lparr>res_status = 409,
        res_body = JObj [(''error'', JStr ''conflict''), (''slack_messages_retrieved'', JNum 3)]\<rparr> \<and>
   snd (slack_to_github_context test_env (context_runtime (Rejects ''socket hang up'')) context_body)
     = [history_call, context_lookup, context_put (Rejects ''socket hang up'')] \<and>
   fst (slack_to_github_context test_env (context_runtime (Rejects ''socket hang up'')) context_body)
     = \<lparr>res_status = 500, res_body = JObj [(''error'', JStr ''socket hang up'')]\<rparr>"
proof -
  let ?gd = "JObj [(''message'', JStr ''conflict'')]"
  let ?w = "Responds 409 (Inr ?gd)"
  let ?w' = "Rejects ''socket hang up''"
  let ?msgs = "[ts_msg ''3'', ts_msg ''1'', ts_msg ''2'']"
  have c: "snd (slack_to_github_context test_env (context_runtime ?w) context_body)
             = [history_call, context_lookup, context_put ?w]"
    and c': "snd (slack_to_github_context test_env (context_runtime ?w') context_body)
             = [history_call, context_lookup, context_put ?w']"
    by (simp_all add: context_run)
  have f: "fetch (context_runtime ?w) 0 history_call = Responds 200 (Inr three_messages)"
    and f': "fetch (context_runtime ?w') 0 history_call = Responds 200 (Inr three_messages)"
    by (rule context_runtime_fetch)+
  have m: "field three_messages ''messages'' = JArr ?msgs"
    by (simp add: three_messages_def)
  have g: "fetch (context_runtime ?w) 2 (context_put ?w) = ?w"
    and g': "fetch (context_runtime ?w') 2 (context_put ?w') = ?w'"
    by (rule context_runtime_fetch)+
  have n: "\<not> ok_status 409" "\<not> nullish ?gd"
    by (simp_all add: ok_status_def nullish_def)
  from context_write_failure_reports_retrieved[OF c f m, of 409 ?gd] g n
  have 1: "fst (slack_to_github_context test_env (context_runtime ?w) context_body)
     = \<lparr>res_status = 409,
        res_body = JObj [(''error'', JStr ''conflict''), (''slack_messages_retrieved'', JNum 3)]\<rparr>"
    by (simp add: js_or_def)
  from context_write_failure_reports_retrieved[OF c' f' m, of _ _ "''socket hang up''"] g'
  have 2: "fst (slack_to_github_context test_env (context_runtime ?w') context_body)
     = \<lparr>res_status = 500, res_body = JObj [(''error'', JStr ''socket hang up'')]\<rparr>"
    by simp
  from c c' f m n 1 2 show ?thesis by blast
qed

text \<open>
  The claim as it is written, for every failing write: the store answers the write with status
  502 and a body that is not JSON. \<^verbatim>\<open>githubResponse.json()\<close> throws, the outer
  \<^verbatim>\<open>catch\<close> answers 500, and the body has no \<^verbatim>\<open>slack_messages_retrieved\<close>.
\<close>

theorem context_write_failure_counterexample:
  "snd (slack_to_github_context test_env
          (context_runtime (Responds 502 (Inl ''Unexpected token < in JSON at position 0'')))
          context_body)
     = [history_call, context_lookup,
        context_put (Responds 502 (Inl ''Unexpected token < in JSON at position 0''))] \<and>
   fst (slack_to_github_context test_env
          (context_runtime (Responds 502 (Inl ''Unexpected token < in JSON at position 0'')))
          context_body)
     = \<lparr>res_status = 500,
        res_body = JObj [(''error'', JStr ''Unexpected token < in JSON at position 0'')]\<rparr> \<and>
   field (res_body (fst (slack_to_github_context test_env
          (context_runtime (Responds 502 (Inl ''Unexpected token < in JSON at position 0'')))
          context_body))) ''slack_messages_retrieved'' \<noteq> JNum 3"
  by (simp add: context_run context_reply_def value_defs)

section \<open>The rendered document\<close>

text \<open>
  Claim C1, as the code has it: the composite handler reverses the sequence of messages the
  provider returned and renders the document from it, so the document lists the messages in
  the exact reverse of the provider's order, and that document (base64-encoded) is the content
  it writes. Messages returned with timestamps 3, 1, 2 are presented in the order 2, 1, 3;
  messages returned newest first, 3, 2, 1, are presented oldest first, 1, 2, 3.
\<close>

theorem context_document_reverses_provider_order:
  "(list_all (\<lambda>m. \<not> nullish m) msgs \<longrightarrow>
      markdown_content rt (JArr msgs) = Inr (document_of rt (rev msgs)))
   \<and> (snd (slack_to_github_context e rt b) = [slackCall, check, put] \<longrightarrow>
      fetch rt 0 slackCall = Responds st (Inr slackData) \<longrightarrow>
      field slackData ''messages'' = JArr msgs \<longrightarrow>
      (\<exists>body. out_body put = Some (JObj body) \<and>
         map_of body ''content'' = Some (JStr (base64 (document_of rt (rev msgs))))))
   \<and> markdown_content rt (JArr [ts_msg ''3'', ts_msg ''1'', ts_msg ''2'']) =
       Inr (document_of rt [ts_msg ''2'', ts_msg ''1'', ts_msg ''3''])
   \<and> markdown_content rt (JArr [ts_msg ''3'', ts_msg ''2'', ts_msg ''1'']) =
       Inr (document_of rt [ts_msg ''1'', ts_msg ''2'', ts_msg ''3''])"
proof (intro conjI impI)
  assume "list_all (\<lambda>m. \<not> nullish m) msgs"
  then show "markdown_content rt (JArr msgs) = Inr (document_of rt (rev msgs))"
    by (simp add: markdown_content_ok document_of_def)
next
  assume calls: "snd (slack_to_github_context e rt b) = [slackCall, check, put]"
    and hist: "fetch rt 0 slackCall = Responds st (Inr slackData)"
    and msgs: "field slackData ''messages'' = JArr msgs"
  from context_calls[OF calls] hist msgs obtain u t m sha md where
    md: "markdown_content rt (JArr msgs) = Inr md"
    and put: "put = put_call u t (put_body m (base64 md) (JStr ''main'') sha)"
    by (auto simp: response_json_def js_or_def)
  from markdown_content_document[OF md] put
  show "\<exists>body. out_body put = Some (JObj body) \<and>
         map_of body ''content'' = Some (JStr (base64 (document_of rt (rev msgs))))"
    by (simp add: put_call_def put_body_def)
next
  show "markdown_content rt (JArr [ts_msg ''3'', ts_msg ''1'', ts_msg ''2'']) =
       Inr (document_of rt [ts_msg ''2'', ts_msg ''1'', ts_msg ''3''])"
    by (simp add: markdown_content_ok document_of_def ts_msg_def nullish_def)
next
  show "markdown_content rt (JArr [ts_msg ''3'', ts_msg ''2'', ts_msg ''1'']) =
       Inr (document_of rt [ts_msg ''1'', ts_msg ''2'', ts_msg ''3''])"
    by (simp add: markdown_content_ok document_of_def ts_msg_def nullish_def)
qed

theorem context_document_reverses_provider_order_witness:
  "list_all (\<lambda>m. \<not> nullish m) [ts_msg ''3'', ts_msg ''1'', ts_msg ''2''] \<and>
   snd (slack_to_github_context test_env (context_runtime (Responds 201 (Inr (JObj [])))) context_body)
     = [history_call, context_lookup, context_put (Responds 201 (Inr (JObj [])))] \<and>
   fetch (context_runtime (Responds 201 (Inr (JObj [])))) 0 history_call
     = Responds 200 (Inr three_messages) \<and>
   field three_messages ''messages'' = JArr [ts_msg ''3'', ts_msg ''1'', ts_msg ''2''] \<and>
   markdown_content (context_runtime (Responds 201 (Inr (JObj []))))
       (JArr [ts_msg ''3'', ts_msg ''1'', ts_msg ''2''])
     = Inr (document_of (context_runtime (Responds 201 (Inr (JObj []))))
              [ts_msg ''2'', ts_msg ''1'', ts_msg ''3'']) \<and>
   (\<exists>body. out_body (context_put (Responds 201 (Inr (JObj [])))) = Some (JObj body) \<and>
      map_of body ''content'' =
        Some (JStr (base64 (document_of (context_runtime (Responds 201 (Inr (JObj []))))
                              [ts_msg ''2'', ts_msg ''1'', ts_msg ''3'']))))"
proof -
  let ?w = "Responds 201 (Inr (JObj []))"
  let ?rt = "context_runtime ?w"
  let ?msgs = "[ts_msg ''3'', ts_msg ''1'', ts_msg ''2'']"
  have a: "list_all (\<lambda>m. \<not> nullish m) ?msgs"
    by (simp add: ts_msg_def nullish_def)
  have c: "snd (slack_to_github_context test_env ?rt context_body)
             = [history_call, context_lookup, context_put ?w]"
    by (simp add: context_run)
  have f: "fetch ?rt 0 history_call = Responds 200 (Inr three_messages)"
    by (rule context_runtime_fetch)
  have m: "field three_messages ''messages'' = JArr ?msgs"
    by (simp add: three_messages_def)
  from context_document_reverses_provider_order[where rt = ?rt and msgs = ?msgs,
         THEN conjunct1, rule_format, OF a]
  have 1: "markdown_content ?rt (JArr ?msgs) =
             Inr (document_of ?rt [ts_msg ''2'', ts_msg ''1'', ts_msg ''3''])"
    by simp
  from context_document_reverses_provider_order[THEN conjunct2, THEN conjunct1, rule_format, OF c f m]
  have 2: "\<exists>body. out_body (context_put ?w) = Some (JObj body) \<and>
      map_of body ''content'' =
        Some (JStr (base64 (document_of ?rt [ts_msg ''2'', ts_msg ''1'', ts_msg ''3''])))"
    by simp
  from a c f m 1 2 show ?thesis by blast
qed

text \<open>
  The claim as it is written: for messages returned with timestamps 3, 1, 2, the document is
  not the one that presents them in the order 1, 2, 3. The handler reverses; it does not sort.
\<close>

theorem context_document_order_counterexample:
  "markdown_content (test_runtime offline)
     (JArr [ts_msg ''3'', ts_msg ''1'', ts_msg ''2''])
   \<noteq> Inr (document_of (test_runtime offline)
            [ts_msg ''1'', ts_msg ''2'', ts_msg ''3''])"
  by (simp add: markdown_content_ok document_of_def ts_msg_def nullish_def message_block_def
        author_name_def message_text_def test_runtime_def nl_def)

text \<open>
  Claim C5: for every sequence of messages the rendered document is a title line, a line
  with the generation timestamp, a line with the number of messages, a horizontal rule, and
  then for each message a level-3 heading \<^verbatim>\<open><author> - <local timestamp>\<close>, the text and a
  horizontal rule. A message with neither \<^verbatim>\<open>user\<close> nor \<^verbatim>\<open>username\<close> has the author
  \<^verbatim>\<open>Unknown\<close>; a message with no \<^verbatim>\<open>text\<close> has the empty text.
\<close>

theorem context_document_layout:
  "(list_all (\<lambda>m. \<not> nullish m) msgs \<longrightarrow>
      markdown_content rt (JArr msgs) =
        Inr (''# Slack Context from Channel'' @ nl @
             ''Generated: '' @ iso_now rt 0 @ nl @
             ''Total messages: '' @ int_str (int (length msgs)) @ nl @ nl @
             ''---'' @ nl @ nl @
             join (nl @ nl)
               (map (\<lambda>m. ''### '' @ author_name m @ '' - '' @ locale_string rt (field m ''ts'') @
                          nl @ nl @ message_text m @ nl @ nl @ ''---'')
                    (rev msgs)) @ nl))
   \<and> (field m ''user'' = JUndefined \<and> field m ''username'' = JUndefined \<longrightarrow>
        author_name m = ''Unknown'')
   \<and> (field m ''user'' = JStr u \<and> u \<noteq> [] \<longrightarrow> author_name m = u)
   \<and> (field m ''user'' = JUndefined \<and> field m ''username'' = JStr u \<and> u \<noteq> [] \<longrightarrow>
        author_name m = u)
   \<and> (field m ''text'' = JUndefined \<longrightarrow> message_text m = [])
   \<and> (field m ''text'' = JStr t \<longrightarrow> message_text m = t)"
proof -
  have blk: "message_block rt =
      (\<lambda>m. ''### '' @ author_name m @ '' - '' @ locale_string rt (field m ''ts'') @
            nl @ nl @ message_text m @ nl @ nl @ ''---'')"
    by (rule ext) (simp add: message_block_def)
  show ?thesis
    by (simp add: markdown_content_ok blk author_name_def message_text_def)
qed

theorem context_document_layout_witness:
  "list_all (\<lambda>m. \<not> nullish m) two_messages \<and>
   markdown_content (test_runtime offline) (JArr two_messages) =
     Inr ''# Slack Context from Channel\<newline>Generated: 2024-05-01T10:00:00.000Z\<newline>Total messages: 2\<newline>\<newline>---\<newline>\<newline>### U42 - 1700000001.000100\<newline>\<newline>hello\<newline>\<newline>---\<newline>\<newline>### deploy-bot - 1700000002.000200\<newline>\<newline>\<newline>\<newline>---\<newline>'' \<and>
   field (ts_msg ''3'') ''user'' = JUndefined \<and> field (ts_msg ''3'') ''username'' = JUndefined \<and>
   author_name (ts_msg ''3'') = ''Unknown'' \<and>
   field (two_messages ! 1) ''user'' = JStr ''U42'' \<and> author_name (two_messages ! 1) = ''U42'' \<and>
   field (two_messages ! 0) ''user'' = JUndefined \<and>
   field (two_messages ! 0) ''username'' = JStr ''deploy-bot'' \<and>
   author_name (two_messages ! 0) = ''deploy-bot'' \<and>
   field (two_messages ! 0) ''text'' = JUndefined \<and> message_text (two_messages ! 0) = [] \<and>
   field (two_messages ! 1) ''text'' = JStr ''hello'' \<and> message_text (two_messages ! 1) = ''hello''"
proof -
  let ?rt = "test_runtime offline"
  have a: "list_all (\<lambda>m. \<not> nullish m) two_messages"
    by (simp add: two_messages_def nullish_def)
  have f: "field (ts_msg ''3'') ''user'' = JUndefined" "field (ts_msg ''3'') ''username'' = JUndefined"
    "field (two_messages ! 1) ''user'' = JStr ''U42''"
    "field (two_messages ! 0) ''user'' = JUndefined"
    "field (two_messages ! 0) ''username'' = JStr ''deploy-bot''"
    "field (two_messages ! 0) ''text'' = JUndefined"
    "field (two_messages ! 1) ''text'' = JStr ''hello''"
    by (simp_all add: two_messages_def ts_msg_def)
  note L = context_document_layout[where rt = ?rt and msgs = two_messages]
  from L[THEN conjunct1, rule_format, OF a]
  have 1: "markdown_content ?rt (JArr two_messages) =
     Inr ''# Slack Context from Channel\<newline>Generated: 2024-05-01T10:00:00.000Z\<newline>Total messages: 2\<newline>\<newline>---\<newline>\<newline>### U42 - 1700000001.000100\<newline>\<newline>hello\<newline>\<newline>---\<newline>\<newline>### deploy-bot - 1700000002.000200\<newline>\<newline>\<newline>\<newline>---\<newline>''"
    by (simp add: two_messages_def test_runtime_def author_name_def message_text_def nl_def
          int_str_def digits.simps digit_char_def)
  from L[where m = "ts_msg ''3''", THEN conjunct2, THEN conjunct1] f
  have 2: "author_name (ts_msg ''3'') = ''Unknown''" by simp
  from L[where m = "two_messages ! 1" and u = "''U42''", THEN conjunct2, THEN conjunct2, THEN conjunct1] f
  have 3: "author_name (two_messages ! 1) = ''U42''" by simp
  from L[where m = "two_messages ! 0" and u = "''deploy-bot''",
         THEN conjunct2, THEN conjunct2, THEN conjunct2, THEN conjunct1] f
  have 4: "author_name (two_messages ! 0) = ''deploy-bot''" by simp
  from L[where m = "two_messages ! 0", THEN conjunct2, THEN conjunct2, THEN conjunct2,
         THEN conjunct2, THEN conjunct1] f
  have 5: "message_text (two_messages ! 0) = []" by simp
  from L[where m = "two_messages ! 1" and t = "''hello''", THEN conjunct2, THEN conjunct2,
         THEN conjunct2, THEN conjunct2, THEN conjunct2] f
  have 6: "message_text (two_messages ! 1) = ''hello''" by simp
  from a f 1 2 3 4 5 6 show ?thesis by blast
qed

end
